theory Spec2Isabelle
  imports Main "HOL-Library.Word" "HOL-Library.AList"
begin

section \<open>Data model\<close>

text \<open>Go's \<open>int64\<close>: a 64-bit word read through \<open>sint\<close>; \<open>+\<close> and \<open>-\<close> wrap around.\<close>

type_synonym int64 = "64 word"

text \<open>
  An HTTP header set, keyed by header name. \<open>Header.Set\<close> replaces the value stored
  under a key and \<open>Header.Get\<close> returns the empty string for a key that is absent.
\<close>

type_synonym header = "(string \<times> string) list"

definition Header_Get :: "header \<Rightarrow> string \<Rightarrow> string" where
  "Header_Get h k = (case map_of h k of None \<Rightarrow> [] | Some v \<Rightarrow> v)"

definition Header_Set :: "header \<Rightarrow> string \<Rightarrow> string \<Rightarrow> header" where
  "Header_Set h k v = AList.update k v h"

record request =
  Method :: string
  URL :: string
  Header :: header
  ContentLength :: int64
  hasBody :: bool

record response =
  StatusCode :: int
  resHeader :: header
  resContentLength :: int64
  Body :: string

text \<open>
  The error values the code builds or inspects. \<open>Iodine e\<close> is the wrapper that
  \<open>iodine.New\<close> puts around \<open>e\<close>; \<open>ProtocolError res\<close> is what
  \<open>NewError(res)\<close> builds from a response; \<open>PathError op path e\<close> is
  \<open>*os.PathError\<close> and \<open>Errno n\<close> is \<open>syscall.Errno\<close>.
\<close>

datatype num_err = ErrSyntax | ErrRange

datatype go_error =
    ErrorString string
  | Errno nat
  | PathError string string go_error
  | ErrLength
  | InvalidByteError char
  | NumError string num_err
  | InvalidArgument
  | InvalidRange int64
  | ObjectNotFound string string
  | ProtocolError response
  | Iodine go_error

text \<open>\<open>time.Time\<close> as seconds counted from its zero value.\<close>

type_synonym go_time = int

definition zeroTime :: go_time where
  "zeroTime = 0"

text \<open>
  \<open>iodine.New(err, nil)\<close>: nil for a nil error (\<open>blockingWriteCloser.Write\<close> wraps
  every result of the pipe write in it and returns nil on success), otherwise the error
  with a stack entry; an error that is wrapped already is not wrapped twice.
\<close>

definition iodine_New :: "go_error option \<Rightarrow> go_error option" where
  "iodine_New err =
     (case err of
        None \<Rightarrow> None
      | Some e \<Rightarrow> (case e of Iodine _ \<Rightarrow> Some e | _ \<Rightarrow> Some (Iodine e)))"

text \<open>
  The client. The bodies of \<open>newReq\<close>, \<open>keyURL\<close> and \<open>signRequest\<close> are not
  available, so the three are fields of the client here and every result holds for
  whatever they compute; \<open>newReq url userAgent body\<close> is told only whether a body is
  given. The two transports are fields as well: \<open>RoundTrip\<close> is
  \<open>c.Transport.RoundTrip\<close> and \<open>clientDo\<close> is \<open>http.Client{}.Do\<close>, each giving
  the outcome the network has for a request.
\<close>

record s3Client =
  Host :: string
  UserAgent :: string
  newReq :: "string \<Rightarrow> string \<Rightarrow> bool \<Rightarrow> request"
  keyURL :: "string \<Rightarrow> string \<Rightarrow> string"
  signRequest :: "request \<Rightarrow> string \<Rightarrow> request"
  RoundTrip :: "request \<Rightarrow> go_error + response"
  clientDo :: "request \<Rightarrow> go_error + response"

text \<open>
  Modelled from the spec: \<open>NewError\<close>, whose body is not available. The spec calls
  its result a protocol-level error built from the response, which carries the response
  for diagnostics.
\<close>

definition NewError :: "response \<Rightarrow> go_error" where
  "NewError res = ProtocolError res"

text \<open>The requests put on the network so far, oldest first.\<close>

type_synonym wire = "request list"

section \<open>Library functions the operations call\<close>

subsection \<open>\<open>fmt.Sprintf("%d", n)\<close>\<close>

definition digit_char :: "nat \<Rightarrow> char" where
  "digit_char d = ''0123456789'' ! d"

fun digits :: "nat \<Rightarrow> string" where
  "digits n = (if n < 10 then [digit_char n] else digits (n div 10) @ [digit_char (n mod 10)])"

declare digits.simps [simp del]

definition fmt_d :: "int \<Rightarrow> string" where
  "fmt_d i = (if i < 0 then CHR ''-'' # digits (nat (- i)) else digits (nat i))"

subsection \<open>\<open>strings.Trim(s, "\"")\<close>\<close>

definition Trim_quotes :: "string \<Rightarrow> string" where
  "Trim_quotes s =
     rev (dropWhile (\<lambda>c. c = CHR 0x22) (rev (dropWhile (\<lambda>c. c = CHR 0x22) s)))"

subsection \<open>\<open>strconv.ParseInt(s, 10, 64)\<close>\<close>

definition isDigit :: "char \<Rightarrow> bool" where
  "isDigit c = (48 \<le> (of_char c :: nat) \<and> (of_char c :: nat) \<le> 57)"

definition decimal :: "string \<Rightarrow> nat" where
  "decimal s = foldl (\<lambda>n c. 10 * n + (of_char c - 48)) 0 s"

definition ParseInt :: "string \<Rightarrow> go_error + int64" where
  "ParseInt s =
     (if s = [] then Inl (NumError s ErrSyntax)
      else
        let neg = (hd s = CHR ''-'');
            s1 = (if hd s = CHR ''+'' \<or> hd s = CHR ''-'' then tl s else s)
        in if s1 = [] \<or> \<not> list_all isDigit s1 then Inl (NumError s ErrSyntax)
           else
             let un = decimal s1
             in if \<not> neg \<and> un \<ge> 2 ^ 63 then Inl (NumError s ErrRange)
                else if neg \<and> un > 2 ^ 63 then Inl (NumError s ErrRange)
                else Inr (word_of_int (if neg then - int un else int un)))"

section \<open>Object API operations\<close>

subsection \<open>GetPartial\<close>

text \<open>The request \<open>GetPartial\<close> builds, before it is signed.\<close>

definition GetPartial_request :: "s3Client \<Rightarrow> string \<Rightarrow> string \<Rightarrow> int64 \<Rightarrow> int64 \<Rightarrow> request" where
  "GetPartial_request c bucket key offset length' =
     (let req = newReq c (keyURL c bucket key) (UserAgent c) False
      in if 0 \<le> sint length'
         then req\<lparr>Header := Header_Set (Header req) ''Range''
                (''bytes='' @ fmt_d (sint offset) @ ''-'' @ fmt_d (sint (offset + length' - 1)))\<rparr>
         else req\<lparr>Header := Header_Set (Header req) ''Range''
                (''bytes='' @ fmt_d (sint offset) @ ''-'')\<rparr>)"

text \<open>
  The result is Go's \<open>(body, size, md5, err)\<close>, with the wire after the call; a nil body
  is \<open>None\<close> and a nil error is \<open>None\<close>.
\<close>

definition GetPartial ::
  "s3Client \<Rightarrow> string \<Rightarrow> string \<Rightarrow> int64 \<Rightarrow> int64 \<Rightarrow> wire
     \<Rightarrow> (string option \<times> int64 \<times> string \<times> go_error option) \<times> wire" where
  "GetPartial c bucket key offset length' w =
     (if sint offset < 0
      then ((None, 0, [], iodine_New (Some (InvalidRange offset))), w)
      else
        let req = signRequest c (GetPartial_request c bucket key offset length') (Host c)
        in case RoundTrip c req of
             Inl err \<Rightarrow> ((None, 0, [], iodine_New (Some err)), w @ [req])
           | Inr res \<Rightarrow>
               if StatusCode res = 200 \<or> StatusCode res = 206
               then ((Some (Body res), resContentLength res,
                      Header_Get (resHeader res) ''ETag'', None), w @ [req])
               else ((None, 0, [], iodine_New (Some (NewError res))), w @ [req]))"

subsection \<open>Get\<close>

definition Get ::
  "s3Client \<Rightarrow> string \<Rightarrow> string \<Rightarrow> wire
     \<Rightarrow> (string option \<times> int64 \<times> string \<times> go_error option) \<times> wire" where
  "Get c bucket key w =
     (let req = signRequest c (newReq c (keyURL c bucket key) (UserAgent c) False) (Host c)
      in case RoundTrip c req of
           Inl err \<Rightarrow> ((None, 0, [], iodine_New (Some err)), w @ [req])
         | Inr res \<Rightarrow>
             if StatusCode res \<noteq> 200
             then ((None, 0, [], iodine_New (Some (NewError res))), w @ [req])
             else ((Some (Body res), resContentLength res,
                    Trim_quotes (Header_Get (resHeader res) ''ETag''), None), w @ [req]))"

subsection \<open>StatObject\<close>

text \<open>
  \<open>time_Parse\<close> stands for \<open>time.Parse(time.RFC1123, _)\<close>, left uninterpreted; on
  failure Go's \<open>time.Parse\<close> returns the zero time with the error, and that is the
  \<open>date\<close> the failing branch returns. The named results \<open>size\<close>, \<open>date\<close> and
  \<open>reterr\<close> start at zero, and the bare \<open>return\<close> after the \<open>switch\<close> returns them.
\<close>

definition StatObject ::
  "(string \<Rightarrow> go_error + go_time) \<Rightarrow> s3Client \<Rightarrow> string \<Rightarrow> string \<Rightarrow> wire
     \<Rightarrow> (int64 \<times> go_time \<times> go_error option) \<times> wire" where
  "StatObject time_Parse c bucket key w =
     (if bucket = [] \<or> key = []
      then ((0, zeroTime, iodine_New (Some InvalidArgument)), w)
      else
        let req = newReq c (keyURL c bucket key) (UserAgent c) False;
            req = req\<lparr>Method := ''HEAD''\<rparr>;
            req = signRequest c req (Host c)
        in case RoundTrip c req of
             Inl err \<Rightarrow> ((0, zeroTime, iodine_New (Some err)), w @ [req])
           | Inr res \<Rightarrow>
               if StatusCode res = 404
               then ((0, zeroTime, iodine_New (Some (ObjectNotFound bucket key))), w @ [req])
               else if StatusCode res = 200
               then (case ParseInt (Header_Get (resHeader res) ''Content-Length'') of
                       Inl err \<Rightarrow> ((0, zeroTime, iodine_New (Some err)), w @ [req])
                     | Inr size' \<Rightarrow>
                         let dateStr = Header_Get (resHeader res) ''Last-Modified''
                         in if dateStr \<noteq> []
                            then (case time_Parse dateStr of
                                    Inl err \<Rightarrow> ((0, zeroTime, iodine_New (Some err)), w @ [req])
                                  | Inr date \<Rightarrow> ((size', date, None), w @ [req]))
                            else ((size', zeroTime, None), w @ [req]))
               else ((0, zeroTime, iodine_New (Some (NewError res))), w @ [req]))"


text \<open>The signed request \<open>StatObject\<close> hands to the transport.\<close>

definition StatObject_request :: "s3Client \<Rightarrow> string \<Rightarrow> string \<Rightarrow> request" where
  "StatObject_request c bucket key =
     signRequest c ((newReq c (keyURL c bucket key) (UserAgent c) False)\<lparr>Method := ''HEAD''\<rparr>)
       (Host c)"

section \<open>Library functions of the upload path\<close>

subsection \<open>\<open>strings.TrimSpace\<close>\<close>

text \<open>
  \<open>TrimSpace\<close> removes the leading and the trailing runes for which
  \<open>unicode.IsSpace\<close> holds. A Go string is a byte sequence read as UTF-8, so the
  white-space runes are given by their encodings: the six ASCII ones, U+0085 and U+00A0
  (\<open>C2 85\<close>, \<open>C2 A0\<close>), U+1680 (\<open>E1 9A 80\<close>), U+2000 to U+200A, U+2028, U+2029,
  U+202F (\<open>E2 80 xx\<close>), U+205F (\<open>E2 81 9F\<close>) and U+3000 (\<open>E3 80 80\<close>).
  \<open>spaceLen s\<close> is the length of the white-space rune \<open>s\<close> starts with, 0 when it
  starts with none; \<open>spaceLenRev\<close> is the same for a reversed string.
\<close>

definition asciiSpace :: "nat \<Rightarrow> bool" where
  "asciiSpace n = ((9 \<le> n \<and> n \<le> 13) \<or> n = 32)"

definition e2Third :: "nat \<Rightarrow> nat \<Rightarrow> bool" where
  "e2Third d e =
     ((d = 0x80 \<and> ((0x80 \<le> e \<and> e \<le> 0x8A) \<or> e = 0xA8 \<or> e = 0xA9 \<or> e = 0xAF))
      \<or> (d = 0x81 \<and> e = 0x9F))"

definition spaceRune3 :: "nat \<Rightarrow> nat \<Rightarrow> nat \<Rightarrow> bool" where
  "spaceRune3 c d e =
     ((c = 0xE1 \<and> d = 0x9A \<and> e = 0x80) \<or> (c = 0xE2 \<and> e2Third d e)
      \<or> (c = 0xE3 \<and> d = 0x80 \<and> e = 0x80))"

definition spaceRune2 :: "nat \<Rightarrow> nat \<Rightarrow> bool" where
  "spaceRune2 c d = (c = 0xC2 \<and> (d = 0x85 \<or> d = 0xA0))"

fun spaceLen :: "string \<Rightarrow> nat" where
  "spaceLen [] = 0"
| "spaceLen [c] = (if asciiSpace (of_char c) then 1 else 0)"
| "spaceLen [c, d] =
     (if asciiSpace (of_char c) then 1
      else if spaceRune2 (of_char c) (of_char d) then 2 else 0)"
| "spaceLen (c # d # e # s) =
     (if asciiSpace (of_char c) then 1
      else if spaceRune2 (of_char c) (of_char d) then 2
      else if spaceRune3 (of_char c) (of_char d) (of_char e) then 3 else 0)"

fun spaceLenRev :: "string \<Rightarrow> nat" where
  "spaceLenRev [] = 0"
| "spaceLenRev [c] = (if asciiSpace (of_char c) then 1 else 0)"
| "spaceLenRev [d, c] =
     (if asciiSpace (of_char d) then 1
      else if spaceRune2 (of_char c) (of_char d) then 2 else 0)"
| "spaceLenRev (e # d # c # s) =
     (if asciiSpace (of_char e) then 1
      else if spaceRune2 (of_char d) (of_char e) then 2
      else if spaceRune3 (of_char c) (of_char d) (of_char e) then 3 else 0)"

function trimBy :: "(string \<Rightarrow> nat) \<Rightarrow> string \<Rightarrow> string" where
  "trimBy len s = (if len s = 0 \<or> s = [] then s else trimBy len (drop (len s) s))"
  by pat_completeness auto
termination
  by (relation "measure (\<lambda>(len, s). length s)") auto

declare trimBy.simps [simp del]

definition TrimSpace :: "string \<Rightarrow> string" where
  "TrimSpace s = rev (trimBy spaceLenRev (rev (trimBy spaceLen s)))"

subsection \<open>\<open>hex.DecodeString\<close>\<close>

text \<open>
  An odd length is \<open>ErrLength\<close>; otherwise the first byte that is not a hexadecimal
  digit is an \<open>InvalidByteError\<close>. The decoded bytes are numbers below 256.
\<close>

definition fromHexChar :: "char \<Rightarrow> nat option" where
  "fromHexChar c =
     (let n = (of_char c :: nat)
      in if 48 \<le> n \<and> n \<le> 57 then Some (n - 48)
         else if 97 \<le> n \<and> n \<le> 102 then Some (n - 97 + 10)
         else if 65 \<le> n \<and> n \<le> 70 then Some (n - 65 + 10)
         else None)"

fun hex_Decode :: "string \<Rightarrow> go_error + nat list" where
  "hex_Decode [] = Inr []"
| "hex_Decode [a] = Inl ErrLength"
| "hex_Decode (a # b # s) =
     (case fromHexChar a of
        None \<Rightarrow> Inl (InvalidByteError a)
      | Some x \<Rightarrow>
          (case fromHexChar b of
             None \<Rightarrow> Inl (InvalidByteError b)
           | Some y \<Rightarrow>
               (case hex_Decode s of
                  Inl err \<Rightarrow> Inl err
                | Inr bs \<Rightarrow> Inr ((x * 16 + y) # bs))))"

definition hex_DecodeString :: "string \<Rightarrow> go_error + nat list" where
  "hex_DecodeString s = (if odd (length s) then Inl ErrLength else hex_Decode s)"

subsection \<open>\<open>base64.StdEncoding.EncodeToString\<close>\<close>

definition encodeStd :: "nat \<Rightarrow> char" where
  "encodeStd n =
     ''ABCDEFGHIJKLMNOPQRSTUVWXYZabcdefghijklmnopqrstuvwxyz0123456789+/'' ! n"

fun base64_EncodeToString :: "nat list \<Rightarrow> string" where
  "base64_EncodeToString [] = []"
| "base64_EncodeToString [a] =
     [encodeStd (a div 4), encodeStd ((a mod 4) * 16), CHR ''='', CHR ''='']"
| "base64_EncodeToString [a, b] =
     [encodeStd (a div 4), encodeStd ((a mod 4) * 16 + b div 16),
      encodeStd ((b mod 16) * 4), CHR ''='']"
| "base64_EncodeToString (a # b # c # bs) =
     [encodeStd (a div 4), encodeStd ((a mod 4) * 16 + b div 16),
      encodeStd ((b mod 16) * 4 + c div 64), encodeStd (c mod 64)]
     @ base64_EncodeToString bs"

section \<open>Put and the blocking write closer\<close>

subsection \<open>The background sender\<close>

text \<open>
  The request the goroutine of \<open>Put\<close> builds before it signs it, or the error of
  decoding the content hash. The body is the read end of the pipe.
\<close>

definition Put_request ::
  "s3Client \<Rightarrow> string \<Rightarrow> string \<Rightarrow> string \<Rightarrow> int64 \<Rightarrow> go_error + request" where
  "Put_request c bucket key md5HexString size' =
     (let req = newReq c (keyURL c bucket key) (UserAgent c) True;
          req = req\<lparr>Method := ''PUT''\<rparr>;
          req = req\<lparr>ContentLength := size'\<rparr>
      in if TrimSpace md5HexString \<noteq> []
         then (case hex_DecodeString md5HexString of
                 Inl err \<Rightarrow> Inl err
               | Inr md5 \<Rightarrow>
                   Inr (req\<lparr>Header := Header_Set (Header req) ''Content-MD5''
                                       (base64_EncodeToString md5)\<rparr>))
         else Inr req)"

text \<open>
  The length a request declares through \<open>Request.ContentLength\<close>: a negative value
  stands for "length unknown" (\<open>net/http\<close> documents \<open>-1\<close> for it), a value that is
  not negative is the declared number of bytes of the body. What the transport writes
  on the wire for the field is not modelled.
\<close>

definition declaredLength :: "request \<Rightarrow> int64 option" where
  "declaredLength req =
     (if 0 \<le> sint (ContentLength req) then Some (ContentLength req) else None)"

text \<open>
  What the goroutine does to the objects it shares with the caller, in program order:
  the request it sends, how it closes the read end of the pipe, and its call of
  \<open>Release\<close>. In the branch for a status other than 200 the \<open>err\<close> given to
  \<open>iodine.New\<close> is the error of \<open>client.Do\<close>, which is nil there.
\<close>

datatype call =
    ClientDo request
  | RCloseWithError "go_error option"
  | Release "go_error option"
  | RClose

definition Put_goroutine ::
  "s3Client \<Rightarrow> string \<Rightarrow> string \<Rightarrow> string \<Rightarrow> int64 \<Rightarrow> call list" where
  "Put_goroutine c bucket key md5HexString size' =
     (case Put_request c bucket key md5HexString size' of
        Inl err \<Rightarrow>
          (let err = iodine_New (Some err) in [RCloseWithError err, Release err])
      | Inr req \<Rightarrow>
          (let req = signRequest c req (Host c)
           in case clientDo c req of
                Inl err \<Rightarrow>
                  (let err = iodine_New (Some err)
                   in [ClientDo req, RCloseWithError err, Release err])
              | Inr res \<Rightarrow>
                  if StatusCode res \<noteq> 200
                  then (let err = iodine_New None
                        in [ClientDo req, RCloseWithError err, Release err])
                  else [ClientDo req, Release None, RClose]))"

definition isRelease :: "call \<Rightarrow> bool" where
  "isRelease x = (case x of Release _ \<Rightarrow> True | _ \<Rightarrow> False)"

subsection \<open>The shared state and its atomic steps\<close>

text \<open>
  The handle and what the two sides share: the counter of the wait group
  \<open>b.release\<close>, the field \<open>b.err\<close>, the two ends of the pipe, the requests sent, the
  values the calls of \<open>Close\<close> have returned so far, and whether the program has
  panicked.
\<close>

record upload =
  release :: int
  err :: "go_error option"
  wclosed :: bool
  rclosed :: "go_error option option"
  sent :: wire
  returned :: "go_error option list"
  panicked :: bool

text \<open>\<open>NewBlockingWriteCloser\<close>: a fresh wait group after \<open>wg.Add(1)\<close>, no error.\<close>

definition NewBlockingWriteCloser :: upload where
  "NewBlockingWriteCloser =
     \<lparr>release = 1, err = None, wclosed = False, rclosed = None, sent = [],
      returned = [], panicked = False\<rparr>"

datatype atom =
    Do request
  | CloseRead "go_error option"
  | WgDone
  | SetErr "go_error option"
  | CloseWrite
  | WgWait
  | ReturnErr

text \<open>
  \<open>PipeWriter.Close\<close> of the standard library closes the write end and always returns
  nil.
\<close>

definition PipeWriter_Close :: "go_error option" where
  "PipeWriter_Close = None"

declare PipeWriter_Close_def [simp]

text \<open>
  \<open>Release(err)\<close> is \<open>b.release.Done()\<close> and then \<open>if err != nil { b.err = err }\<close>.
  \<open>Close()\<close> closes the write end and stores the error of that, if any, in
  \<open>b.err\<close>; then it waits for the wait group and returns \<open>b.err\<close>.
\<close>

definition Release_atoms :: "go_error option \<Rightarrow> atom list" where
  "Release_atoms e = [WgDone, SetErr e]"

definition Close :: "atom list" where
  "Close = [CloseWrite, WgWait, ReturnErr]"

fun atoms :: "call \<Rightarrow> atom list" where
  "atoms (ClientDo req) = [Do req]"
| "atoms (RCloseWithError e) = [CloseRead e]"
| "atoms (Release e) = Release_atoms e"
| "atoms RClose = [CloseRead None]"

text \<open>
  One atomic step; \<open>None\<close> means the step cannot run yet. \<open>Done\<close> on a counter
  that is already zero panics; \<open>Wait\<close> runs only when the counter is zero.
\<close>

fun exec :: "atom \<Rightarrow> upload \<Rightarrow> upload option" where
  "exec (Do req) s = Some (s\<lparr>sent := sent s @ [req]\<rparr>)"
| "exec (CloseRead e) s = Some (s\<lparr>rclosed := Some e\<rparr>)"
| "exec WgDone s =
     (if release s \<le> 0 then Some (s\<lparr>panicked := True\<rparr>)
      else Some (s\<lparr>release := release s - 1\<rparr>))"
| "exec (SetErr e) s = (case e of None \<Rightarrow> Some s | Some x \<Rightarrow> Some (s\<lparr>err := Some x\<rparr>))"
| "exec CloseWrite s =
     (case PipeWriter_Close of
        None \<Rightarrow> Some (s\<lparr>wclosed := True\<rparr>)
      | Some e \<Rightarrow> Some (s\<lparr>wclosed := True, err := Some e\<rparr>))"
| "exec WgWait s = (if release s = 0 then Some s else None)"
| "exec ReturnErr s = Some (s\<lparr>returned := returned s @ [err s]\<rparr>)"

subsection \<open>Interleavings\<close>

text \<open>
  A configuration holds what the goroutine and the caller have still to do and the
  shared state. A schedule names the side that moves next; a side that is blocked or
  finished, or a program that has panicked, stays where it is.
\<close>

record config =
  sender :: "atom list"
  closer :: "atom list"
  shared :: upload

datatype thread = Sender | Closer

fun step :: "thread \<Rightarrow> config \<Rightarrow> config" where
  "step Sender cf =
     (case sender cf of
        [] \<Rightarrow> cf
      | a # as \<Rightarrow>
          if panicked (shared cf) then cf
          else (case exec a (shared cf) of
                  None \<Rightarrow> cf
                | Some s \<Rightarrow> cf\<lparr>sender := as, shared := s\<rparr>))"
| "step Closer cf =
     (case closer cf of
        [] \<Rightarrow> cf
      | a # as \<Rightarrow>
          if panicked (shared cf) then cf
          else (case exec a (shared cf) of
                  None \<Rightarrow> cf
                | Some s \<Rightarrow> cf\<lparr>closer := as, shared := s\<rparr>))"

fun run :: "thread list \<Rightarrow> config \<Rightarrow> config" where
  "run [] cf = cf"
| "run (t # ts) cf = run ts (step t cf)"

text \<open>
  \<open>Put\<close> returns the handle and a nil error at once; the goroutine it has started
  runs beside the caller. \<open>start script n\<close> is the configuration in which the
  goroutine has \<open>script\<close> before it and the caller calls \<open>Close\<close> \<open>n\<close> times.
\<close>

definition Put ::
  "s3Client \<Rightarrow> string \<Rightarrow> string \<Rightarrow> string \<Rightarrow> int64
     \<Rightarrow> (upload \<times> call list) \<times> go_error option" where
  "Put c bucket key md5HexString size' =
     ((NewBlockingWriteCloser, Put_goroutine c bucket key md5HexString size'), None)"

definition start :: "call list \<Rightarrow> nat \<Rightarrow> config" where
  "start script n =
     \<lparr>sender = concat (map atoms script), closer = concat (replicate n Close),
      shared = NewBlockingWriteCloser\<rparr>"

subsection \<open>Invariants of the interleavings\<close>

text \<open>
  \<open>counted\<close>: the wait-group counter is the number of \<open>Done\<close> the goroutine has
  still to run, at most one, and nothing has panicked. \<open>held\<close>: as long as the counter
  is not zero no \<open>Close\<close> has returned, and the caller stands before a \<open>Wait\<close>
  wherever it is about to return. \<open>quiet\<close>: nobody stores an error. \<open>refused x\<close>:
  the goroutine that failed to decode the content hash is somewhere on its way to
  storing \<open>x\<close>, and nothing has been sent.
\<close>

definition counted :: "config \<Rightarrow> bool" where
  "counted cf =
     (\<not> panicked (shared cf) \<and> release (shared cf) = int (count_list (sender cf) WgDone)
      \<and> count_list (sender cf) WgDone \<le> 1 \<and> WgDone \<notin> set (closer cf))"

fun gated :: "atom list \<Rightarrow> bool" where
  "gated [] = True"
| "gated (WgWait # ReturnErr # as) = gated as"
| "gated (ReturnErr # as) = False"
| "gated (a # as) = gated as"

definition held :: "config \<Rightarrow> bool" where
  "held cf =
     (ReturnErr \<notin> set (sender cf)
      \<and> (release (shared cf) = 0 \<or> (returned (shared cf) = [] \<and> gated (closer cf))))"

definition silent :: "atom \<Rightarrow> bool" where
  "silent a = (case a of SetErr (Some x) \<Rightarrow> False | _ \<Rightarrow> True)"

definition quiet :: "config \<Rightarrow> bool" where
  "quiet cf =
     (err (shared cf) = None \<and> list_all (\<lambda>x. x = None) (returned (shared cf))
      \<and> list_all silent (sender cf) \<and> list_all silent (closer cf))"

definition refused :: "go_error \<Rightarrow> config \<Rightarrow> bool" where
  "refused x cf =
     (sent (shared cf) = [] \<and> set (closer cf) \<subseteq> set Close
      \<and> ((sender cf = [] \<and> err (shared cf) = Some x)
         \<or> sender cf = [SetErr (Some x)]
         \<or> sender cf = [WgDone, SetErr (Some x)]
         \<or> sender cf = [CloseRead (Some x), WgDone, SetErr (Some x)]))"

section \<open>The pipe command\<close>

text \<open>
  \<open>*probe.Error\<close>: a cause and the trace points added by \<open>Trace\<close>; nil is \<open>None\<close>.
  \<open>Trace\<close> and \<open>ToGoError\<close> on nil give nil, which \<open>mainPipe\<close> relies on when it
  traces the result of \<open>pipe\<close> before testing it.
\<close>

datatype probe_error = ProbeError (Cause: go_error) (CallTrace: "string list list")

definition Trace :: "probe_error option \<Rightarrow> string list \<Rightarrow> probe_error option" where
  "Trace e fs =
     (case e of
        None \<Rightarrow> None
      | Some (ProbeError cause tr) \<Rightarrow> Some (ProbeError cause (tr @ [fs])))"

definition ToGoError :: "probe_error option \<Rightarrow> go_error option" where
  "ToGoError e = (case e of None \<Rightarrow> None | Some pe \<Rightarrow> Some (Cause pe))"

definition EPIPE :: go_error where
  "EPIPE = Errno 32"

text \<open>
  The bodies of \<open>catOut\<close> and \<open>putTargets\<close> are not available, so their results are
  parameters: \<open>catOut\<close> is the result of \<open>catOut(os.Stdin)\<close> and
  \<open>putTargets urls size\<close> the result of \<open>putTargets(urls, size, os.Stdin)\<close>.
\<close>

definition pipe ::
  "probe_error option \<Rightarrow> (string list \<Rightarrow> int64 \<Rightarrow> probe_error option) \<Rightarrow> string list
     \<Rightarrow> probe_error option" where
  "pipe catOut putTargets targetURLs =
     (if length targetURLs = 0 \<or> targetURLs = [] then Trace catOut []
      else
        let err = putTargets targetURLs (- 1)
        in case ToGoError err of
             Some (PathError op path e) \<Rightarrow>
               if e = EPIPE then None else Trace err targetURLs
           | _ \<Rightarrow> Trace err targetURLs)"

definition isBrokenPipe :: "go_error \<Rightarrow> bool" where
  "isBrokenPipe e = (case e of PathError op path e' \<Rightarrow> e' = EPIPE | _ \<Rightarrow> False)"

section \<open>Example inputs\<close>

definition exampleClient :: "(request \<Rightarrow> go_error + response) \<Rightarrow> s3Client" where
  "exampleClient reply =
     \<lparr>Host = ''s3.amazonaws.com'', UserAgent = ''mc'',
      newReq = (\<lambda>url ua body.
         \<lparr>Method = ''GET'', URL = url, Header = [(''User-Agent'', ua)],
          ContentLength = 0, hasBody = body\<rparr>),
      keyURL = (\<lambda>bucket key. ''https://s3.amazonaws.com/'' @ bucket @ ''/'' @ key),
      signRequest = (\<lambda>req host.
         req\<lparr>Header := Header_Set (Header req) ''Authorization'' (''AWS '' @ host)\<rparr>),
      RoundTrip = reply, clientDo = reply\<rparr>"

definition exampleResponse :: "int \<Rightarrow> header \<Rightarrow> response" where
  "exampleResponse status h =
     \<lparr>StatusCode = status, resHeader = h, resContentLength = 3, Body = ''abc''\<rparr>"

definition fixedReply :: "int \<Rightarrow> header \<Rightarrow> request \<Rightarrow> go_error + response" where
  "fixedReply status h req = Inr (exampleResponse status h)"

definition noNetwork :: "request \<Rightarrow> go_error + response" where
  "noNetwork req = Inl (ErrorString ''dial tcp: no route to host'')"

definition rfc1123 :: "string \<Rightarrow> go_error + go_time" where
  "rfc1123 s = (if s = ''Mon, 02 Jan 2006 15:04:05 MST'' then Inr 63271811045
                else Inl (ErrorString ''parsing time''))"

definition brokenPutTargets :: "string list \<Rightarrow> int64 \<Rightarrow> probe_error option" where
  "brokenPutTargets urls size' =
     Some (ProbeError (PathError ''read'' ''/dev/stdin'' EPIPE) [])"

definition failingPutTargets :: "string list \<Rightarrow> int64 \<Rightarrow> probe_error option" where
  "failingPutTargets urls size' = Some (ProbeError (ErrorString ''connection refused'') [])"

definition quotedETag :: header where
  "quotedETag = [(''ETag'', [CHR 0x22] @ ''abc'' @ [CHR 0x22])]"

definition putRequest :: "int \<Rightarrow> request" where
  "putRequest status =
     projr (Put_request (exampleClient (fixedReply status [])) ''bucket'' ''key'' [] (- 1))"

definition sentRequest :: "int \<Rightarrow> request" where
  "sentRequest status =
     signRequest (exampleClient (fixedReply status [])) (putRequest status)
       (Host (exampleClient (fixedReply status [])))"

section \<open>Basic facts\<close>

lemma Header_Get_Set: "Header_Get (Header_Set h k v) k = v"
  by (simp add: Header_Get_def Header_Set_def update_conv')

lemma iodine_New_Some: "iodine_New (Some e) \<noteq> None"
  by (simp add: iodine_New_def split: go_error.split)

text \<open>\<open>offset + length - 1\<close> in 64 bits is the exact value as long as that fits.\<close>

lemma sint_add_pred:
  fixes a b :: int64
  assumes "0 \<le> sint a" "0 \<le> sint b" "sint a + sint b - 1 < 2 ^ 63"
  shows "sint (a + b - 1) = sint a + sint b - 1"
proof -
  have "a + b - 1 = word_of_int (sint a + sint b - 1)"
    by simp
  then have "sint (a + b - 1) = signed_take_bit 63 (sint a + sint b - 1)"
    by (simp only: sint_sbintrunc') simp
  also have "\<dots> = sint a + sint b - 1"
    using assms by (intro signed_take_bit_int_eq_self) auto
  finally show ?thesis .
qed

lemma fmt_d_10: "fmt_d 10 = ''10''"
  by (simp add: fmt_d_def digits.simps digit_char_def)

lemma fmt_d_14: "fmt_d 14 = ''14''"
  by (simp add: fmt_d_def digits.simps digit_char_def)

lemma ParseInt_123: "ParseInt ''123'' = Inr 123"
  by (simp add: ParseInt_def isDigit_def decimal_def)

lemma ParseInt_12a: "ParseInt ''12a'' = Inl (NumError ''12a'' ErrSyntax)"
  by (simp add: ParseInt_def isDigit_def decimal_def)

section \<open>GetPartial, Get and StatObject\<close>

text \<open>
  C5: for every bucket, key and length, \<open>GetPartial\<close> with a negative offset returns an
  \<open>InvalidRange\<close> error at once and puts no request on the wire.
\<close>

theorem GetPartial_negative_offset:
  "sint offset < 0 \<Longrightarrow>
   GetPartial c bucket key offset length' w =
     ((None, 0, [], Some (Iodine (InvalidRange offset))), w)"
  by (simp add: GetPartial_def iodine_New_def)

theorem GetPartial_negative_offset_witness:
  "sint (- 1 :: int64) < 0 \<and>
   GetPartial (exampleClient noNetwork) ''bucket'' ''key'' (- 1) 5 []
     = ((None, 0, [], Some (Iodine (InvalidRange (- 1)))), [])"
  using GetPartial_negative_offset [of "- 1" "exampleClient noNetwork" "''bucket''" "''key''" 5 "[]"]
  by simp

text \<open>
  C6, as stated, fails where \<open>offset + length - 1\<close> leaves the 64-bit range: at offset
  \<open>2^63 - 1\<close> and length 2 the sum wraps around and the header is
  \<open>bytes=9223372036854775807--9223372036854775808\<close>, not the range the claim gives.
\<close>

theorem GetPartial_Range_overflow:
  "0 \<le> sint (9223372036854775807 :: int64) \<and> 0 \<le> sint (2 :: int64) \<and>
   Header_Get (Header (GetPartial_request (exampleClient noNetwork) ''bucket'' ''key''
       9223372036854775807 2)) ''Range''
     = ''bytes=9223372036854775807--9223372036854775808'' \<and>
   Header_Get (Header (GetPartial_request (exampleClient noNetwork) ''bucket'' ''key''
       9223372036854775807 2)) ''Range''
     \<noteq> ''bytes='' @ fmt_d (sint (9223372036854775807 :: int64)) @ ''-''
        @ fmt_d (sint (9223372036854775807 :: int64) + sint (2 :: int64) - 1)"
proof -
  have a: "fmt_d 9223372036854775807 = ''9223372036854775807''"
    by (simp add: fmt_d_def digits.simps digit_char_def)
  have b: "fmt_d (- 9223372036854775808) = ''-9223372036854775808''"
    by (simp add: fmt_d_def digits.simps digit_char_def)
  have c: "fmt_d 9223372036854775808 = ''9223372036854775808''"
    by (simp add: fmt_d_def digits.simps digit_char_def)
  show ?thesis
    by (simp add: GetPartial_request_def Let_def Header_Get_Set a b c)
qed

text \<open>
  C6, amended: for every offset \<open>\<ge> 0\<close>, \<open>GetPartial\<close> with a length \<open>\<ge> 0\<close> such that
  \<open>offset + length - 1\<close> fits in 64 bits sets the Range header to
  \<open>bytes=<offset>-<offset+length-1>\<close>, whose inclusive positions are the half-open range
  from \<open>offset\<close> to \<open>offset + length\<close>; with a negative length it sets the header to
  \<open>bytes=<offset>-\<close>. The request is signed and sent as the next one on the wire.
\<close>

theorem GetPartial_Range:
  assumes "0 \<le> sint offset"
  shows "(0 \<le> sint length' \<and> sint offset + sint length' - 1 < 2 ^ 63 \<longrightarrow>
            Header_Get (Header (GetPartial_request c bucket key offset length')) ''Range''
              = ''bytes='' @ fmt_d (sint offset) @ ''-'' @ fmt_d (sint offset + sint length' - 1)
          \<and> {sint offset .. sint offset + sint length' - 1}
              = {sint offset ..< sint offset + sint length'})
       \<and> (sint length' < 0 \<longrightarrow>
            Header_Get (Header (GetPartial_request c bucket key offset length')) ''Range''
              = ''bytes='' @ fmt_d (sint offset) @ ''-'')
       \<and> snd (GetPartial c bucket key offset length' w)
            = w @ [signRequest c (GetPartial_request c bucket key offset length') (Host c)]"
proof (intro conjI impI)
  assume b: "0 \<le> sint length' \<and> sint offset + sint length' - 1 < 2 ^ 63"
  with assms have "sint (offset + length' - 1) = sint offset + sint length' - 1"
    by (simp add: sint_add_pred)
  with b show "Header_Get (Header (GetPartial_request c bucket key offset length')) ''Range''
      = ''bytes='' @ fmt_d (sint offset) @ ''-'' @ fmt_d (sint offset + sint length' - 1)"
    by (simp add: GetPartial_request_def Let_def Header_Get_Set)
  show "{sint offset .. sint offset + sint length' - 1}
      = {sint offset ..< sint offset + sint length'}"
    by auto
next
  assume "sint length' < 0"
  then show "Header_Get (Header (GetPartial_request c bucket key offset length')) ''Range''
      = ''bytes='' @ fmt_d (sint offset) @ ''-''"
    by (simp add: GetPartial_request_def Let_def Header_Get_Set)
next
  from assms show "snd (GetPartial c bucket key offset length' w)
      = w @ [signRequest c (GetPartial_request c bucket key offset length') (Host c)]"
    by (simp add: GetPartial_def Let_def split: sum.split)
qed

theorem GetPartial_Range_witness:
  "0 \<le> sint (10 :: int64) \<and> 0 \<le> sint (5 :: int64) \<and> sint (- 1 :: int64) < 0 \<and>
   Header_Get (Header (GetPartial_request (exampleClient noNetwork) ''bucket'' ''key'' 10 5))
     ''Range'' = ''bytes=10-14'' \<and>
   Header_Get (Header (GetPartial_request (exampleClient noNetwork) ''bucket'' ''key'' 10 (- 1)))
     ''Range'' = ''bytes=10-''"
  using GetPartial_Range [of 10 5 "exampleClient noNetwork" "''bucket''" "''key''" "[]"]
    GetPartial_Range [of 10 "- 1" "exampleClient noNetwork" "''bucket''" "''key''" "[]"]
  by (simp add: fmt_d_10 fmt_d_14)

text \<open>
  C7: \<open>StatObject\<close> maps the response it receives as follows. A 404 is an
  \<open>ObjectNotFound\<close> error naming the bucket and the key. On a 200 the Content-Length is
  parsed in base 10, and a failure to parse is the error returned; then a Last-Modified
  header that is absent gives the size with the zero time and a nil error, one that
  does not parse gives the parse error, and one that parses gives the size and the
  time. Any other status is the protocol error built from the response.
\<close>

theorem StatObject_status_mapping:
  assumes "bucket \<noteq> []" and "key \<noteq> []"
    and "RoundTrip c (StatObject_request c bucket key) = Inr res"
  shows "(StatusCode res = 404 \<longrightarrow>
            fst (StatObject time_Parse c bucket key w)
              = (0, zeroTime, Some (Iodine (ObjectNotFound bucket key))))
       \<and> (StatusCode res = 200 \<longrightarrow>
            (case ParseInt (Header_Get (resHeader res) ''Content-Length'') of
               Inl e \<Rightarrow> fst (StatObject time_Parse c bucket key w) = (0, zeroTime, Some (Iodine e))
             | Inr n \<Rightarrow>
                 if Header_Get (resHeader res) ''Last-Modified'' = []
                 then fst (StatObject time_Parse c bucket key w) = (n, zeroTime, None)
                 else (case time_Parse (Header_Get (resHeader res) ''Last-Modified'') of
                         Inl e \<Rightarrow> fst (StatObject time_Parse c bucket key w)
                                    = (0, zeroTime, iodine_New (Some e))
                                  \<and> iodine_New (Some e) \<noteq> None
                       | Inr d \<Rightarrow> fst (StatObject time_Parse c bucket key w) = (n, d, None))))
       \<and> (StatusCode res \<noteq> 404 \<and> StatusCode res \<noteq> 200 \<longrightarrow>
            fst (StatObject time_Parse c bucket key w)
              = (0, zeroTime, Some (Iodine (ProtocolError res))))"
  using assms
  by (auto simp: StatObject_def StatObject_request_def Let_def iodine_New_def NewError_def
        ParseInt_def split: sum.split go_error.split)

theorem StatObject_status_mapping_witness:
  "fst (StatObject rfc1123 (exampleClient (fixedReply 404 [])) ''bucket'' ''key'' [])
     = (0, zeroTime, Some (Iodine (ObjectNotFound ''bucket'' ''key''))) \<and>
   fst (StatObject rfc1123 (exampleClient (fixedReply 200
          [(''Content-Length'', ''123''), (''Last-Modified'', ''Mon, 02 Jan 2006 15:04:05 MST'')]))
        ''bucket'' ''key'' [])
     = (123, 63271811045, None) \<and>
   fst (StatObject rfc1123 (exampleClient (fixedReply 200 [(''Content-Length'', ''123'')]))
        ''bucket'' ''key'' [])
     = (123, zeroTime, None) \<and>
   fst (StatObject rfc1123 (exampleClient (fixedReply 200 [(''Content-Length'', ''12a'')]))
        ''bucket'' ''key'' [])
     = (0, zeroTime, Some (Iodine (NumError ''12a'' ErrSyntax))) \<and>
   fst (StatObject rfc1123 (exampleClient (fixedReply 200
          [(''Content-Length'', ''123''), (''Last-Modified'', ''yesterday'')]))
        ''bucket'' ''key'' [])
     = (0, zeroTime, Some (Iodine (ErrorString ''parsing time''))) \<and>
   fst (StatObject rfc1123 (exampleClient (fixedReply 500 [])) ''bucket'' ''key'' [])
     = (0, zeroTime, Some (Iodine (ProtocolError (exampleResponse 500 []))))"
  using
    StatObject_status_mapping [of "''bucket''" "''key''" "exampleClient (fixedReply 404 [])"
      "exampleResponse 404 []" rfc1123 "[]"]
    StatObject_status_mapping [of "''bucket''" "''key''"
      "exampleClient (fixedReply 200
          [(''Content-Length'', ''123''), (''Last-Modified'', ''Mon, 02 Jan 2006 15:04:05 MST'')])"
      "exampleResponse 200
          [(''Content-Length'', ''123''), (''Last-Modified'', ''Mon, 02 Jan 2006 15:04:05 MST'')]"
      rfc1123 "[]"]
    StatObject_status_mapping [of "''bucket''" "''key''"
      "exampleClient (fixedReply 200 [(''Content-Length'', ''123'')])"
      "exampleResponse 200 [(''Content-Length'', ''123'')]" rfc1123 "[]"]
    StatObject_status_mapping [of "''bucket''" "''key''"
      "exampleClient (fixedReply 200 [(''Content-Length'', ''12a'')])"
      "exampleResponse 200 [(''Content-Length'', ''12a'')]" rfc1123 "[]"]
    StatObject_status_mapping [of "''bucket''" "''key''"
      "exampleClient (fixedReply 200
          [(''Content-Length'', ''123''), (''Last-Modified'', ''yesterday'')])"
      "exampleResponse 200 [(''Content-Length'', ''123''), (''Last-Modified'', ''yesterday'')]"
      rfc1123 "[]"]
    StatObject_status_mapping [of "''bucket''" "''key''" "exampleClient (fixedReply 500 [])"
      "exampleResponse 500 []" rfc1123 "[]"]
  by (simp add: exampleClient_def fixedReply_def exampleResponse_def Header_Get_def
        StatObject_request_def ParseInt_123 ParseInt_12a rfc1123_def iodine_New_def)

text \<open>
  C10: on a 200 or a 206, \<open>GetPartial\<close> returns the ETag header as it is, quotes
  included; on a 200, \<open>Get\<close> returns it with the surrounding double quotes trimmed.
  For a response whose ETag is \<open>"abc"\<close> in quotes, the two return different strings.
\<close>

theorem GetPartial_ETag_verbatim:
  "(0 \<le> sint offset
      \<and> RoundTrip c (signRequest c (GetPartial_request c bucket key offset length') (Host c))
          = Inr res
      \<and> (StatusCode res = 200 \<or> StatusCode res = 206) \<longrightarrow>
      fst (GetPartial c bucket key offset length' w)
        = (Some (Body res), resContentLength res, Header_Get (resHeader res) ''ETag'', None))
   \<and> (RoundTrip c (signRequest c (newReq c (keyURL c bucket key) (UserAgent c) False) (Host c))
          = Inr res'
      \<and> StatusCode res' = 200 \<longrightarrow>
      fst (Get c bucket key w)
        = (Some (Body res'), resContentLength res',
           Trim_quotes (Header_Get (resHeader res') ''ETag''), None))
   \<and> fst (snd (snd (fst (GetPartial (exampleClient (fixedReply 200 quotedETag))
                          ''bucket'' ''key'' 0 (- 1) []))))
      \<noteq> fst (snd (snd (fst (Get (exampleClient (fixedReply 200 quotedETag))
                             ''bucket'' ''key'' []))))"
  by (auto simp: GetPartial_def Get_def Let_def exampleClient_def fixedReply_def
        exampleResponse_def quotedETag_def Header_Get_def Trim_quotes_def)

theorem GetPartial_ETag_verbatim_witness:
  "fst (GetPartial (exampleClient (fixedReply 206 quotedETag)) ''bucket'' ''key'' 0 (- 1) [])
     = (Some ''abc'', 3, [CHR 0x22] @ ''abc'' @ [CHR 0x22], None) \<and>
   fst (Get (exampleClient (fixedReply 200 quotedETag)) ''bucket'' ''key'' [])
     = (Some ''abc'', 3, ''abc'', None)"
  using GetPartial_ETag_verbatim [where offset = 0
      and c = "exampleClient (fixedReply 206 quotedETag)" and bucket = "''bucket''"
      and key = "''key''" and length' = "- 1" and res = "exampleResponse 206 quotedETag"
      and res' = "exampleResponse 206 quotedETag" and w = "[]"]
    GetPartial_ETag_verbatim [where offset = 0
      and c = "exampleClient (fixedReply 200 quotedETag)" and bucket = "''bucket''"
      and key = "''key''" and length' = "- 1" and res = "exampleResponse 200 quotedETag"
      and res' = "exampleResponse 200 quotedETag" and w = "[]"]
  by (simp add: exampleClient_def fixedReply_def exampleResponse_def quotedETag_def
        Header_Get_def Trim_quotes_def)

section \<open>The pipe command\<close>

text \<open>
  C1, as stated, fails: with one target, a broken-pipe error from \<open>putTargets\<close> makes
  \<open>pipe\<close> return nil rather than the error.
\<close>

theorem pipe_broken_pipe_with_targets:
  "[''s3.amazonaws.com/bucket/object''] \<noteq> [] \<and>
   brokenPutTargets [''s3.amazonaws.com/bucket/object''] (- 1)
     = Some (ProbeError (PathError ''read'' ''/dev/stdin'' EPIPE) []) \<and>
   pipe None brokenPutTargets [''s3.amazonaws.com/bucket/object''] = None"
  by (simp add: pipe_def brokenPutTargets_def ToGoError_def)

text \<open>
  C1, amended: with one or more targets, an error of \<open>putTargets\<close> whose cause is an
  \<open>*os.PathError\<close> holding \<open>EPIPE\<close> is a graceful exit and \<open>pipe\<close> returns nil; any
  other error is returned with the targets added to its trace, and no error gives nil.
  With no target \<open>pipe\<close> returns what \<open>catOut\<close> returns, traced, and tests nothing
  itself.
\<close>

theorem pipe_broken_pipe:
  "(targetURLs \<noteq> [] \<and> putTargets targetURLs (- 1) = Some e \<and> isBrokenPipe (Cause e) \<longrightarrow>
      pipe catOut putTargets targetURLs = None)
   \<and> (targetURLs \<noteq> [] \<and> putTargets targetURLs (- 1) = Some e \<and> \<not> isBrokenPipe (Cause e) \<longrightarrow>
      pipe catOut putTargets targetURLs
        = Some (ProbeError (Cause e) (CallTrace e @ [targetURLs])))
   \<and> (targetURLs \<noteq> [] \<and> putTargets targetURLs (- 1) = None \<longrightarrow>
      pipe catOut putTargets targetURLs = None)
   \<and> pipe catOut putTargets [] = Trace catOut []"
  by (cases e) (auto simp: pipe_def ToGoError_def isBrokenPipe_def Trace_def Let_def
        split: go_error.splits option.splits)

theorem pipe_broken_pipe_witness:
  "pipe None brokenPutTargets [''s3.amazonaws.com/bucket/object''] = None \<and>
   pipe None failingPutTargets [''s3.amazonaws.com/bucket/object'']
     = Some (ProbeError (ErrorString ''connection refused'')
               [[''s3.amazonaws.com/bucket/object'']]) \<and>
   pipe (Some (ProbeError (PathError ''write'' ''/dev/stdout'' EPIPE) [])) brokenPutTargets []
     = Some (ProbeError (PathError ''write'' ''/dev/stdout'' EPIPE) [[]])"
  using
    pipe_broken_pipe [of "[''s3.amazonaws.com/bucket/object'']" brokenPutTargets
      "ProbeError (PathError ''read'' ''/dev/stdin'' EPIPE) []" None]
    pipe_broken_pipe [of "[''s3.amazonaws.com/bucket/object'']" failingPutTargets
      "ProbeError (ErrorString ''connection refused'') []" None]
    pipe_broken_pipe [of "[]" brokenPutTargets
      "ProbeError (ErrorString ''connection refused'') []"
      "Some (ProbeError (PathError ''write'' ''/dev/stdout'' EPIPE) [])"]
  by (simp add: brokenPutTargets_def failingPutTargets_def isBrokenPipe_def Trace_def)

section \<open>Put\<close>

text \<open>
  C3: the request \<open>Put\<close> builds carries the size it was given as its content length,
  so it has a fixed declared length exactly when the size is not negative, and none
  for every negative size.
\<close>

theorem Put_ContentLength:
  "Put_request c bucket key md5HexString size' = Inr req \<Longrightarrow>
   ContentLength req = size' \<and>
   declaredLength req = (if 0 \<le> sint size' then Some size' else None)"
  by (auto simp: Put_request_def Let_def declaredLength_def split: if_splits sum.splits)

theorem Put_ContentLength_witness:
  "declaredLength (projr (Put_request (exampleClient noNetwork) ''bucket'' ''key'' [] 5))
     = Some 5 \<and>
   declaredLength (projr (Put_request (exampleClient noNetwork) ''bucket'' ''key'' [] (- 1)))
     = None"
  using Put_ContentLength [of "exampleClient noNetwork" "''bucket''" "''key''" "[]" 5
      "projr (Put_request (exampleClient noNetwork) ''bucket'' ''key'' [] 5)"]
    Put_ContentLength [of "exampleClient noNetwork" "''bucket''" "''key''" "[]" "- 1"
      "projr (Put_request (exampleClient noNetwork) ''bucket'' ''key'' [] (- 1))"]
  by (simp add: Put_request_def Let_def TrimSpace_def trimBy.simps)

subsection \<open>Facts about the library functions\<close>

lemma TrimSpace_Nil: "TrimSpace [] = []"
  by (simp add: TrimSpace_def trimBy.simps)

lemma TrimSpace_blank: "TrimSpace '' '' = []"
  by (simp add: TrimSpace_def trimBy.simps asciiSpace_def)

lemma TrimSpace_zz: "TrimSpace ''zz'' = ''zz''"
  by (simp add: TrimSpace_def trimBy.simps asciiSpace_def spaceRune2_def)

lemma hex_zz: "hex_DecodeString ''zz'' = Inl (InvalidByteError CHR ''z'')"
  by (simp add: hex_DecodeString_def fromHexChar_def)

lemma hex_blank: "hex_DecodeString '' '' = Inl ErrLength"
  by (simp add: hex_DecodeString_def)

lemma hex_00ff: "hex_DecodeString ''00ff'' = Inr [0, 255]"
  by (simp add: hex_DecodeString_def fromHexChar_def)

lemma base64_00ff: "base64_EncodeToString [0, 255] = ''AP8=''"
  by (simp add: encodeStd_def)

lemma hex_Decode_digits:
  "hex_Decode s = Inr bs \<Longrightarrow> \<forall>c \<in> set s. fromHexChar c \<noteq> None"
  by (induction s arbitrary: bs rule: hex_Decode.induct)
     (auto split: option.splits sum.splits)

lemma hex_digit_ascii:
  "fromHexChar c \<noteq> None \<Longrightarrow> \<not> asciiSpace (of_char c) \<and> (of_char c :: nat) < 128"
  by (auto simp: fromHexChar_def asciiSpace_def Let_def split: if_splits)

lemma spaceLen_ascii:
  "\<not> asciiSpace (of_char c) \<Longrightarrow> (of_char c :: nat) < 128 \<Longrightarrow> spaceLen (c # s) = 0"
  by (cases "c # s" rule: spaceLen.cases)
     (auto simp: spaceRune2_def spaceRune3_def)

lemma spaceLenRev_ascii:
  "\<not> asciiSpace (of_char c) \<Longrightarrow> (of_char c :: nat) < 128 \<Longrightarrow> spaceLenRev (c # s) = 0"
  by (cases "c # s" rule: spaceLenRev.cases)
     (auto simp: spaceRune2_def spaceRune3_def e2Third_def)

text \<open>A string of hexadecimal digits has no white space to trim.\<close>

lemma TrimSpace_hex:
  assumes "hex_DecodeString s = Inr bs"
  shows "TrimSpace s = s"
proof (cases s)
  case Nil
  then show ?thesis by (simp add: TrimSpace_def trimBy.simps)
next
  case (Cons c cs)
  from assms have d: "\<forall>c \<in> set s. fromHexChar c \<noteq> None"
    by (auto simp: hex_DecodeString_def split: if_splits dest: hex_Decode_digits)
  from Cons d have "spaceLen s = 0"
    by (simp add: spaceLen_ascii hex_digit_ascii)
  then have l: "trimBy spaceLen s = s"
    by (simp add: trimBy.simps)
  from Cons obtain z zs where r: "rev s = z # zs"
    by (cases "rev s") auto
  then have "z \<in> set s"
    by (metis list.set_intros(1) set_rev)
  with d r have "spaceLenRev (rev s) = 0"
    by (simp add: spaceLenRev_ascii hex_digit_ascii)
  then have "trimBy spaceLenRev (rev s) = rev s"
    by (simp add: trimBy.simps)
  with l show ?thesis by (simp add: TrimSpace_def)
qed

lemma hex_Decode_error:
  "hex_Decode s = Inl e \<Longrightarrow> e = ErrLength \<or> (\<exists>c. e = InvalidByteError c)"
  by (induction s rule: hex_Decode.induct) (auto split: option.splits sum.splits)

lemma hex_error_not_wrapped:
  assumes "hex_DecodeString s = Inl e"
  shows "iodine_New (Some e) = Some (Iodine e)"
proof -
  from assms have "e = ErrLength \<or> (\<exists>c. e = InvalidByteError c)"
    by (auto simp: hex_DecodeString_def split: if_splits dest: hex_Decode_error)
  then show ?thesis
    by (auto simp: iodine_New_def)
qed

subsection \<open>The goroutine on the example inputs\<close>

lemma Put_request_example:
  "Put_request (exampleClient (fixedReply status [])) ''bucket'' ''key'' [] (- 1)
     = Inr (putRequest status)"
  by (simp add: putRequest_def Put_request_def Let_def TrimSpace_Nil)

lemma Put_request_blank:
  "Put_request (exampleClient (fixedReply status [])) ''bucket'' ''key'' '' '' (- 1)
     = Inr (putRequest status)"
  by (simp add: putRequest_def Put_request_def Let_def TrimSpace_Nil TrimSpace_blank)

lemma clientDo_example:
  "clientDo (exampleClient (fixedReply status h)) req = Inr (exampleResponse status h)"
  by (simp add: exampleClient_def fixedReply_def)

lemma status_500: "StatusCode (exampleResponse 500 []) \<noteq> 200"
  by (simp add: exampleResponse_def)

lemma goroutine_200:
  "Put_goroutine (exampleClient (fixedReply 200 [])) ''bucket'' ''key'' [] (- 1)
     = [ClientDo (sentRequest 200), Release None, RClose]"
  by (simp add: Put_goroutine_def Let_def Put_request_example clientDo_example
        exampleResponse_def sentRequest_def)

lemma goroutine_blank:
  "Put_goroutine (exampleClient (fixedReply 200 [])) ''bucket'' ''key'' '' '' (- 1)
     = [ClientDo (sentRequest 200), Release None, RClose]"
  by (simp add: Put_goroutine_def Let_def Put_request_blank clientDo_example
        exampleResponse_def sentRequest_def)

lemma goroutine_500:
  "Put_goroutine (exampleClient (fixedReply 500 [])) ''bucket'' ''key'' [] (- 1)
     = [ClientDo (sentRequest 500), RCloseWithError None, Release None]"
  by (simp add: Put_goroutine_def Let_def Put_request_example clientDo_example
        exampleResponse_def sentRequest_def iodine_New_def)

lemma goroutine_zz:
  "Put_goroutine (exampleClient noNetwork) ''bucket'' ''key'' ''zz'' (- 1)
     = [RCloseWithError (Some (Iodine (InvalidByteError CHR ''z''))),
        Release (Some (Iodine (InvalidByteError CHR ''z'')))]"
  by (simp add: Put_goroutine_def Put_request_def Let_def TrimSpace_zz hex_zz iodine_New_def)

subsection \<open>Some runs, step by step\<close>

lemma run_success_waiting:
  "run [Closer, Closer, Sender] (start [ClientDo r, Release None, RClose] 1)
     = \<lparr>sender = [WgDone, SetErr None, CloseRead None], closer = [WgWait, ReturnErr],
        shared = \<lparr>release = 1, err = None, wclosed = True, rclosed = None,
                   sent = [r], returned = [], panicked = False\<rparr>\<rparr>"
  by (simp add: start_def Close_def Release_atoms_def NewBlockingWriteCloser_def)

lemma run_success_released:
  "run [Closer, Closer, Sender, Sender] (start [ClientDo r, Release None, RClose] 1)
     = \<lparr>sender = [SetErr None, CloseRead None], closer = [WgWait, ReturnErr],
        shared = \<lparr>release = 0, err = None, wclosed = True, rclosed = None,
                   sent = [r], returned = [], panicked = False\<rparr>\<rparr>"
  by (simp add: start_def Close_def Release_atoms_def NewBlockingWriteCloser_def)

lemma run_success_one_Close:
  "run [Sender, Sender, Sender, Sender, Closer, Closer, Closer]
      (start [ClientDo r, Release None, RClose] 1)
     = \<lparr>sender = [], closer = [],
        shared = \<lparr>release = 0, err = None, wclosed = True, rclosed = Some None,
                   sent = [r], returned = [None], panicked = False\<rparr>\<rparr>"
  by (simp add: start_def Close_def Release_atoms_def NewBlockingWriteCloser_def)

lemma run_success_two_Closes:
  "run [Sender, Sender, Sender, Sender, Closer, Closer, Closer, Closer, Closer, Closer]
      (start [ClientDo r, Release None, RClose] 2)
     = \<lparr>sender = [], closer = [],
        shared = \<lparr>release = 0, err = None, wclosed = True, rclosed = Some None,
                   sent = [r], returned = [None, None], panicked = False\<rparr>\<rparr>"
  by (simp add: start_def Close_def Release_atoms_def NewBlockingWriteCloser_def
        numeral_2_eq_2)

lemma run_non_200_one_Close:
  "run [Sender, Sender, Sender, Sender, Closer, Closer, Closer]
      (start [ClientDo r, RCloseWithError None, Release None] 1)
     = \<lparr>sender = [], closer = [],
        shared = \<lparr>release = 0, err = None, wclosed = True, rclosed = Some None,
                   sent = [r], returned = [None], panicked = False\<rparr>\<rparr>"
  by (simp add: start_def Close_def Release_atoms_def NewBlockingWriteCloser_def)

lemma run_refused_sequential:
  "run [Sender, Sender, Sender, Closer, Closer]
      (start [RCloseWithError (Some x), Release (Some x)] 1)
     = \<lparr>sender = [], closer = [ReturnErr],
        shared = \<lparr>release = 0, err = Some x, wclosed = True, rclosed = Some (Some x),
                   sent = [], returned = [], panicked = False\<rparr>\<rparr>"
  by (simp add: start_def Close_def Release_atoms_def NewBlockingWriteCloser_def)

lemma run_refused_race:
  "run [Sender, Sender, Closer, Closer, Closer]
      (start [RCloseWithError (Some x), Release (Some x)] 1)
     = \<lparr>sender = [SetErr (Some x)], closer = [],
        shared = \<lparr>release = 0, err = None, wclosed = True, rclosed = Some (Some x),
                   sent = [], returned = [None], panicked = False\<rparr>\<rparr>"
  by (simp add: start_def Close_def Release_atoms_def NewBlockingWriteCloser_def)

lemma run_refused_race_end:
  "run [Sender, Sender, Closer, Closer, Closer, Sender]
      (start [RCloseWithError (Some x), Release (Some x)] 1)
     = \<lparr>sender = [], closer = [],
        shared = \<lparr>release = 0, err = Some x, wclosed = True, rclosed = Some (Some x),
                   sent = [], returned = [None], panicked = False\<rparr>\<rparr>"
  by (simp add: start_def Close_def Release_atoms_def NewBlockingWriteCloser_def)

subsection \<open>The invariants hold along every schedule\<close>

lemma count_atoms:
  "count_list (concat (map atoms script)) WgDone = length (filter isRelease script)"
proof (induction script)
  case Nil
  then show ?case by simp
next
  case (Cons x xs)
  then show ?case by (cases x) (simp_all add: isRelease_def Release_atoms_def)
qed

lemma gated_Closes: "gated (concat (replicate n Close))"
  by (induction n) (simp_all add: Close_def)

lemma silent_Closes: "list_all silent (concat (replicate n Close))"
  by (induction n) (simp_all add: Close_def silent_def)

lemma set_Closes: "set (concat (replicate n Close)) \<subseteq> set Close"
  by (induction n) simp_all

lemma ReturnErr_notin_atoms: "ReturnErr \<notin> set (atoms x)"
  by (cases x) (simp_all add: Release_atoms_def)

lemma Put_goroutine_one_Release:
  "length (filter isRelease (Put_goroutine c bucket key md5HexString size')) = 1"
  by (simp add: Put_goroutine_def Let_def isRelease_def split: sum.split)

lemma counted_start:
  "length (filter isRelease script) = 1 \<Longrightarrow> counted (start script n)"
  by (simp add: counted_def start_def count_atoms Close_def NewBlockingWriteCloser_def)

lemma held_start: "held (start script n)"
  using gated_Closes [of n]
  by (simp add: held_def start_def ReturnErr_notin_atoms NewBlockingWriteCloser_def)

lemma quiet_start:
  "quiet (start [ClientDo r, RCloseWithError None, Release None] n)"
  using silent_Closes [of n]
  by (simp add: quiet_def start_def Release_atoms_def NewBlockingWriteCloser_def silent_def)

lemma refused_start:
  "refused x (start [RCloseWithError (Some x), Release (Some x)] n)"
  using set_Closes [of n]
  by (simp add: refused_def start_def Release_atoms_def NewBlockingWriteCloser_def)

lemma counted_step: "counted cf \<Longrightarrow> counted (step t cf)"
proof (cases t)
  case Sender
  assume c: "counted cf"
  show ?thesis
  proof (cases "sender cf")
    case Nil
    with c Sender show ?thesis by simp
  next
    case (Cons a as)
    with c Sender show ?thesis
      by (cases a) (auto simp: counted_def split: option.splits if_splits)
  qed
next
  case Closer
  assume c: "counted cf"
  show ?thesis
  proof (cases "closer cf")
    case Nil
    with c Closer show ?thesis by simp
  next
    case (Cons a as)
    with c Closer show ?thesis
      by (cases a) (auto simp: counted_def split: option.splits if_splits)
  qed
qed

lemma held_step: "held cf \<Longrightarrow> held (step t cf)"
proof (cases t)
  case Sender
  assume h: "held cf"
  show ?thesis
  proof (cases "sender cf")
    case Nil
    with h Sender show ?thesis by simp
  next
    case (Cons a as)
    with h Sender show ?thesis
      by (cases a) (auto simp: held_def split: option.splits if_splits)
  qed
next
  case Closer
  assume h: "held cf"
  show ?thesis
  proof (cases "closer cf")
    case Nil
    with h Closer show ?thesis by simp
  next
    case (Cons a as)
    with h Closer show ?thesis
      by (cases a; cases as rule: gated.cases)
         (auto simp: held_def split: option.splits if_splits)
  qed
qed

lemma quiet_step: "quiet cf \<Longrightarrow> quiet (step t cf)"
proof (cases t)
  case Sender
  assume q: "quiet cf"
  show ?thesis
  proof (cases "sender cf")
    case Nil
    with q Sender show ?thesis by simp
  next
    case (Cons a as)
    with q Sender show ?thesis
      by (cases a) (auto simp: quiet_def silent_def split: option.splits if_splits)
  qed
next
  case Closer
  assume q: "quiet cf"
  show ?thesis
  proof (cases "closer cf")
    case Nil
    with q Closer show ?thesis by simp
  next
    case (Cons a as)
    with q Closer show ?thesis
      by (cases a) (auto simp: quiet_def silent_def split: option.splits if_splits)
  qed
qed

lemma refused_step: "refused x cf \<Longrightarrow> refused x (step t cf)"
proof (cases t)
  case Sender
  assume r: "refused x cf"
  show ?thesis
  proof (cases "sender cf")
    case Nil
    with r Sender show ?thesis by simp
  next
    case (Cons a as)
    with r Sender show ?thesis
      by (auto simp: refused_def split: option.splits if_splits)
  qed
next
  case Closer
  assume r: "refused x cf"
  show ?thesis
  proof (cases "closer cf")
    case Nil
    with r Closer show ?thesis by simp
  next
    case (Cons a as)
    with r Closer show ?thesis
      by (cases a) (auto simp: refused_def Close_def split: option.splits if_splits)
  qed
qed

lemma counted_run: "counted cf \<Longrightarrow> counted (run sched cf)"
  by (induction sched arbitrary: cf) (simp_all add: counted_step)

lemma held_run: "held cf \<Longrightarrow> held (run sched cf)"
  by (induction sched arbitrary: cf) (simp_all add: held_step)

lemma quiet_run: "quiet cf \<Longrightarrow> quiet (run sched cf)"
  by (induction sched arbitrary: cf) (simp_all add: quiet_step)

lemma refused_run: "refused x cf \<Longrightarrow> refused x (run sched cf)"
  by (induction sched arbitrary: cf) (simp_all add: refused_step)

lemma exec_unblocked: "release s = 0 \<Longrightarrow> exec a s \<noteq> None"
  by (cases a) (auto split: option.splits)

section \<open>Put, Release and Close\<close>

text \<open>
  C8, as stated, fails in its last part: the goroutine calls \<open>Release\<close> once, and
  after that single call two calls of \<open>Close\<close> on the handle both return.
\<close>

theorem one_Release_unblocks_two_Closes:
  "length (filter isRelease
      (Put_goroutine (exampleClient (fixedReply 200 [])) ''bucket'' ''key'' [] (- 1))) = 1 \<and>
   returned (shared (run
      [Sender, Sender, Sender, Sender, Closer, Closer, Closer, Closer, Closer, Closer]
      (start (Put_goroutine (exampleClient (fixedReply 200 [])) ''bucket'' ''key'' [] (- 1)) 2)))
     = [None, None]"
  by (simp only: goroutine_200 run_success_two_Closes) (simp add: isRelease_def)

text \<open>
  C8, amended: for every call of \<open>Put\<close> the goroutine calls \<open>Release\<close> exactly once,
  whichever way it leaves (decoding of the content hash failed, transport error, status
  other than 200, success). Under every schedule and for any number of calls of
  \<open>Close\<close>: nothing panics; the counter is 1 until the \<open>Done\<close> of that \<open>Release\<close> has
  run and 0 from then on; until then no \<open>Close\<close> has returned and a \<open>Close\<close> that has
  reached its \<open>Wait\<close> cannot move; from then on every step of every \<open>Close\<close> can run,
  so the one call of \<open>Release\<close> unblocks all pending and future calls of \<open>Close\<close>.
\<close>

theorem Release_exactly_once:
  assumes "cf = run sched (start (Put_goroutine c bucket key md5HexString size') n)"
  shows "length (filter isRelease (Put_goroutine c bucket key md5HexString size')) = 1
       \<and> \<not> panicked (shared cf)
       \<and> release (shared cf) = (if WgDone \<in> set (sender cf) then 1 else 0)
       \<and> (WgDone \<in> set (sender cf) \<longrightarrow> returned (shared cf) = [])
       \<and> (WgDone \<in> set (sender cf) \<and> closer cf \<noteq> [] \<and> hd (closer cf) = WgWait \<longrightarrow>
            step Closer cf = cf)
       \<and> (WgDone \<notin> set (sender cf) \<and> closer cf \<noteq> [] \<longrightarrow>
            closer (step Closer cf) = tl (closer cf))"
proof -
  have one: "length (filter isRelease (Put_goroutine c bucket key md5HexString size')) = 1"
    by (rule Put_goroutine_one_Release)
  have c: "counted cf"
    unfolding assms by (rule counted_run [OF counted_start [OF one]])
  have h: "held cf"
    unfolding assms by (rule held_run [OF held_start])
  have rel: "release (shared cf) = (if WgDone \<in> set (sender cf) then 1 else 0)"
  proof (cases "WgDone \<in> set (sender cf)")
    case True
    then have "count_list (sender cf) WgDone \<noteq> 0"
      by (simp add: count_list_0_iff)
    with c True show ?thesis by (simp add: counted_def)
  next
    case False
    with c show ?thesis by (simp add: counted_def count_list_0_iff)
  qed
  have ret: "WgDone \<in> set (sender cf) \<longrightarrow> returned (shared cf) = []"
    using h rel by (auto simp: held_def)
  have blocked: "WgDone \<in> set (sender cf) \<and> closer cf \<noteq> [] \<and> hd (closer cf) = WgWait \<longrightarrow>
      step Closer cf = cf"
    using rel by (cases "closer cf") auto
  have free: "WgDone \<notin> set (sender cf) \<and> closer cf \<noteq> [] \<longrightarrow>
      closer (step Closer cf) = tl (closer cf)"
  proof (intro impI)
    assume a: "WgDone \<notin> set (sender cf) \<and> closer cf \<noteq> []"
    then obtain x xs where cl: "closer cf = x # xs"
      by (cases "closer cf") auto
    from a rel have "exec x (shared cf) \<noteq> None"
      by (simp add: exec_unblocked)
    with c cl show "closer (step Closer cf) = tl (closer cf)"
      by (auto simp: counted_def)
  qed
  from one c rel ret blocked free show ?thesis
    by (simp add: counted_def)
qed

theorem Release_exactly_once_witness:
  "release (shared (run [Closer, Closer, Sender]
      (start (Put_goroutine (exampleClient (fixedReply 200 [])) ''bucket'' ''key'' [] (- 1)) 1)))
     = 1 \<and>
   returned (shared (run [Closer, Closer, Sender]
      (start (Put_goroutine (exampleClient (fixedReply 200 [])) ''bucket'' ''key'' [] (- 1)) 1)))
     = [] \<and>
   step Closer (run [Closer, Closer, Sender]
      (start (Put_goroutine (exampleClient (fixedReply 200 [])) ''bucket'' ''key'' [] (- 1)) 1))
     = run [Closer, Closer, Sender]
      (start (Put_goroutine (exampleClient (fixedReply 200 [])) ''bucket'' ''key'' [] (- 1)) 1) \<and>
   release (shared (run [Closer, Closer, Sender, Sender]
      (start (Put_goroutine (exampleClient (fixedReply 200 [])) ''bucket'' ''key'' [] (- 1)) 1)))
     = 0 \<and>
   closer (step Closer (run [Closer, Closer, Sender, Sender]
      (start (Put_goroutine (exampleClient (fixedReply 200 [])) ''bucket'' ''key'' [] (- 1)) 1)))
     = [ReturnErr]"
  using
    Release_exactly_once [where sched = "[Closer, Closer, Sender]"
      and c = "exampleClient (fixedReply 200 [])" and bucket = "''bucket''" and key = "''key''"
      and md5HexString = "[]" and size' = "- 1" and n = 1, OF refl]
    Release_exactly_once [where sched = "[Closer, Closer, Sender, Sender]"
      and c = "exampleClient (fixedReply 200 [])" and bucket = "''bucket''" and key = "''key''"
      and md5HexString = "[]" and size' = "- 1" and n = 1, OF refl]
  by (simp only: goroutine_200 run_success_waiting run_success_released) simp

text \<open>
  C2: a status other than 200 makes the goroutine call \<open>Release\<close> with
  \<open>iodine.New(err, nil)\<close> where \<open>err\<close> is the nil error of \<open>client.Do\<close>, so the
  handle never holds an error: under every schedule each \<open>Close\<close> that returns returns
  nil, not an error built from the response. Nothing panics.
\<close>

theorem Put_non_200_Close_returns_nil:
  assumes "Put_request c bucket key md5HexString size' = Inr req"
    and "clientDo c (signRequest c req (Host c)) = Inr res"
    and "StatusCode res \<noteq> 200"
    and "cf = run sched (start (Put_goroutine c bucket key md5HexString size') n)"
  shows "Put_goroutine c bucket key md5HexString size'
           = [ClientDo (signRequest c req (Host c)), RCloseWithError None, Release None]
       \<and> list_all (\<lambda>x. x = None) (returned (shared cf))
       \<and> \<not> panicked (shared cf)"
proof -
  have script: "Put_goroutine c bucket key md5HexString size'
      = [ClientDo (signRequest c req (Host c)), RCloseWithError None, Release None]"
    using assms(1-3) by (simp add: Put_goroutine_def Let_def iodine_New_def)
  have "quiet cf"
    unfolding assms(4) script by (rule quiet_run [OF quiet_start])
  moreover have "counted cf"
    unfolding assms(4) by (rule counted_run [OF counted_start [OF Put_goroutine_one_Release]])
  ultimately show ?thesis
    using script by (simp add: quiet_def counted_def)
qed

theorem Put_non_200_Close_returns_nil_witness:
  "StatusCode (exampleResponse 500 []) \<noteq> 200 \<and>
   returned (shared (run [Sender, Sender, Sender, Sender, Closer, Closer, Closer]
      (start (Put_goroutine (exampleClient (fixedReply 500 [])) ''bucket'' ''key'' [] (- 1)) 1)))
     = [None]"
proof -
  note inst = Put_non_200_Close_returns_nil
    [OF Put_request_example clientDo_example status_500 refl,
      of "[Sender, Sender, Sender, Sender, Closer, Closer, Closer]" 1]
  from inst have "Put_goroutine (exampleClient (fixedReply 500 [])) ''bucket'' ''key'' [] (- 1)
      = [ClientDo (signRequest (exampleClient (fixedReply 500 [])) (putRequest 500)
           (Host (exampleClient (fixedReply 500 [])))), RCloseWithError None, Release None]"
    by (rule conjunct1)
  then have "returned (shared (run [Sender, Sender, Sender, Sender, Closer, Closer, Closer]
      (start (Put_goroutine (exampleClient (fixedReply 500 [])) ''bucket'' ''key'' [] (- 1)) 1)))
     = [None]"
    by (simp only: run_non_200_one_Close) simp
  with status_500 show ?thesis
    by (intro conjI)
qed

text \<open>
  C9: \<open>Release\<close> runs \<open>Done\<close> before it stores the error, so a \<open>Close\<close> can pass its
  \<open>Wait\<close> and read \<open>b.err\<close> in between. With the content hash \<open>zz\<close> the goroutine
  calls \<open>Release\<close> with the decoding error; when the caller runs after the \<open>Done\<close>,
  \<open>Close\<close> returns nil, and the error is stored only afterwards.
\<close>

theorem Close_returns_nil_before_Release_stores_error:
  "filter isRelease (Put_goroutine (exampleClient noNetwork) ''bucket'' ''key'' ''zz'' (- 1))
     = [Release (Some (Iodine (InvalidByteError CHR ''z'')))] \<and>
   returned (shared (run [Sender, Sender, Closer, Closer, Closer]
      (start (Put_goroutine (exampleClient noNetwork) ''bucket'' ''key'' ''zz'' (- 1)) 1)))
     = [None] \<and>
   closer (run [Sender, Sender, Closer, Closer, Closer]
      (start (Put_goroutine (exampleClient noNetwork) ''bucket'' ''key'' ''zz'' (- 1)) 1))
     = [] \<and>
   err (shared (run [Sender, Sender, Closer, Closer, Closer, Sender]
      (start (Put_goroutine (exampleClient noNetwork) ''bucket'' ''key'' ''zz'' (- 1)) 1)))
     = Some (Iodine (InvalidByteError CHR ''z''))"
  by (simp only: goroutine_zz run_refused_race run_refused_race_end) (simp add: isRelease_def)

text \<open>
  C4, as stated, fails for a content hash that is not empty but blank: the single space
  is not valid hexadecimal, yet nothing is decoded, the request is sent, \<open>Release\<close> is
  called with nil and \<open>Close\<close> returns nil.
\<close>

theorem Put_blank_content_hash:
  "'' '' \<noteq> [] \<and> hex_DecodeString '' '' = Inl ErrLength \<and>
   filter isRelease
     (Put_goroutine (exampleClient (fixedReply 200 [])) ''bucket'' ''key'' '' '' (- 1))
     = [Release None] \<and>
   returned (shared (run [Sender, Sender, Sender, Sender, Closer, Closer, Closer]
     (start (Put_goroutine (exampleClient (fixedReply 200 [])) ''bucket'' ''key'' '' '' (- 1)) 1)))
     = [None]"
  by (simp only: goroutine_blank run_success_one_Close hex_blank) (simp add: isRelease_def)

text \<open>
  C4, amended: a content hash that \<open>TrimSpace\<close> leaves empty is treated as the empty
  one. For every content hash that \<open>TrimSpace\<close> leaves non-empty and that is not valid
  hexadecimal, \<open>Put\<close> returns the handle with a nil error; the goroutine sends nothing
  and calls \<open>Release\<close> with the decoding error, which is the handle's error once the
  goroutine has finished, and a \<open>Close\<close> that returns then returns it. For every
  non-empty valid content hash the request carries its base64 encoding as Content-MD5,
  and that request, signed, is what the goroutine sends.
\<close>

theorem Put_content_hash:
  assumes "cf = run sched (start (Put_goroutine c bucket key md5HexString size') n)"
  shows "(TrimSpace md5HexString = [] \<longrightarrow>
            Put_goroutine c bucket key md5HexString size' = Put_goroutine c bucket key [] size')
       \<and> (TrimSpace md5HexString \<noteq> [] \<and> hex_DecodeString md5HexString = Inl e \<longrightarrow>
            snd (Put c bucket key md5HexString size') = None
          \<and> Put_goroutine c bucket key md5HexString size'
               = [RCloseWithError (Some (Iodine e)), Release (Some (Iodine e))]
          \<and> sent (shared cf) = []
          \<and> (sender cf = [] \<longrightarrow> err (shared cf) = Some (Iodine e))
          \<and> (sender cf = [] \<and> closer cf \<noteq> [] \<and> hd (closer cf) = ReturnErr \<longrightarrow>
                returned (shared (step Closer cf)) = returned (shared cf) @ [Some (Iodine e)]))
       \<and> (md5HexString \<noteq> [] \<and> hex_DecodeString md5HexString = Inr hash \<longrightarrow>
            snd (Put c bucket key md5HexString size') = None
          \<and> (\<exists>req. Put_request c bucket key md5HexString size' = Inr req
                \<and> Header_Get (Header req) ''Content-MD5'' = base64_EncodeToString hash
                \<and> hd (Put_goroutine c bucket key md5HexString size')
                    = ClientDo (signRequest c req (Host c))))"
proof (intro conjI impI)
  assume "TrimSpace md5HexString = []"
  then show "Put_goroutine c bucket key md5HexString size' = Put_goroutine c bucket key [] size'"
    by (simp add: Put_goroutine_def Put_request_def Let_def TrimSpace_Nil)
next
  assume a: "TrimSpace md5HexString \<noteq> [] \<and> hex_DecodeString md5HexString = Inl e"
  show "snd (Put c bucket key md5HexString size') = None"
    by (simp add: Put_def)
  from a have w: "iodine_New (Some e) = Some (Iodine e)"
    by (blast intro: hex_error_not_wrapped)
  with a show script: "Put_goroutine c bucket key md5HexString size'
      = [RCloseWithError (Some (Iodine e)), Release (Some (Iodine e))]"
    by (simp add: Put_goroutine_def Put_request_def Let_def)
  have r: "refused (Iodine e) cf"
    unfolding assms script by (rule refused_run [OF refused_start])
  then show "sent (shared cf) = []"
    by (simp add: refused_def)
  from r show e: "err (shared cf) = Some (Iodine e)" if "sender cf = []"
    using that by (auto simp: refused_def)
  have c: "counted cf"
    unfolding assms by (rule counted_run [OF counted_start [OF Put_goroutine_one_Release]])
  show "returned (shared (step Closer cf)) = returned (shared cf) @ [Some (Iodine e)]"
    if "sender cf = [] \<and> closer cf \<noteq> [] \<and> hd (closer cf) = ReturnErr"
  proof -
    from that obtain rest where "closer cf = ReturnErr # rest"
      by (cases "closer cf") auto
    with c e that show ?thesis
      by (simp add: counted_def)
  qed
next
  assume a: "md5HexString \<noteq> [] \<and> hex_DecodeString md5HexString = Inr hash"
  show "snd (Put c bucket key md5HexString size') = None"
    by (simp add: Put_def)
  from a have t: "TrimSpace md5HexString \<noteq> []"
    by (simp add: TrimSpace_hex)
  define req where "req = (newReq c (keyURL c bucket key) (UserAgent c) True)
      \<lparr>Method := ''PUT'', ContentLength := size'\<rparr>"
  define req' where "req' = req\<lparr>Header := Header_Set (Header req) ''Content-MD5''
      (base64_EncodeToString hash)\<rparr>"
  from a t have p: "Put_request c bucket key md5HexString size' = Inr req'"
    by (simp add: Put_request_def Let_def req_def req'_def)
  have h: "Header_Get (Header req') ''Content-MD5'' = base64_EncodeToString hash"
    by (simp add: req'_def Header_Get_Set)
  from p have "hd (Put_goroutine c bucket key md5HexString size')
      = ClientDo (signRequest c req' (Host c))"
    by (simp add: Put_goroutine_def Let_def split: sum.split)
  with p h show "\<exists>req. Put_request c bucket key md5HexString size' = Inr req
      \<and> Header_Get (Header req) ''Content-MD5'' = base64_EncodeToString hash
      \<and> hd (Put_goroutine c bucket key md5HexString size')
          = ClientDo (signRequest c req (Host c))"
    by blast
qed

theorem Put_content_hash_witness:
  "TrimSpace ''zz'' \<noteq> [] \<and>
   hex_DecodeString ''zz'' = Inl (InvalidByteError CHR ''z'') \<and>
   returned (shared (step Closer (run [Sender, Sender, Sender, Closer, Closer]
      (start (Put_goroutine (exampleClient noNetwork) ''bucket'' ''key'' ''zz'' (- 1)) 1))))
     = [Some (Iodine (InvalidByteError CHR ''z''))] \<and>
   hex_DecodeString ''00ff'' = Inr [0, 255] \<and>
   (\<exists>req. Put_request (exampleClient noNetwork) ''bucket'' ''key'' ''00ff'' 5 = Inr req
      \<and> Header_Get (Header req) ''Content-MD5'' = ''AP8='')"
proof -
  have t: "TrimSpace ''zz'' \<noteq> []"
    by (simp add: TrimSpace_zz)
  note i1 = Put_content_hash [where sched = "[Sender, Sender, Sender, Closer, Closer]"
      and c = "exampleClient noNetwork" and bucket = "''bucket''" and key = "''key''"
      and md5HexString = "''zz''" and size' = "- 1" and n = 1
      and e = "InvalidByteError CHR ''z''", OF refl]
  from i1 t hex_zz have a:
    "returned (shared (step Closer (run [Sender, Sender, Sender, Closer, Closer]
      (start (Put_goroutine (exampleClient noNetwork) ''bucket'' ''key'' ''zz'' (- 1)) 1))))
     = [Some (Iodine (InvalidByteError CHR ''z''))]"
    by (simp only: goroutine_zz run_refused_sequential) simp
  note i2 = Put_content_hash [where sched = "[]"
      and c = "exampleClient noNetwork" and bucket = "''bucket''" and key = "''key''"
      and md5HexString = "''00ff''" and size' = 5 and n = 1 and hash = "[0, 255]", OF refl]
  from i2 hex_00ff have b:
    "\<exists>req. Put_request (exampleClient noNetwork) ''bucket'' ''key'' ''00ff'' 5 = Inr req
      \<and> Header_Get (Header req) ''Content-MD5'' = ''AP8=''"
    by (simp only: base64_00ff) blast
  show ?thesis
    by (intro conjI t hex_zz a hex_00ff b)
qed

end
